theory Spec2Isabelle
  imports Main "HOL-Library.Sublist"
begin

section \<open>JavaScript strings\<close>

text \<open>
  A JavaScript string is a sequence of UTF-16 code units. It is modelled as the list of
  its code units, each a natural number; \<open>js\<close> embeds an ASCII literal. The empty
  string is the only falsy string.
\<close>

type_synonym jsstring = "nat list"

definition js :: "string \<Rightarrow> jsstring" where
  "js s = map of_char s"

text \<open>
  \<open>String.prototype.trim\<close> removes WhiteSpace and LineTerminator code points from both
  ends: TAB, LF, VT, FF, CR, SP, NBSP, U+1680, U+2000 to U+200A, U+2028, U+2029, U+202F,
  U+205F, U+3000 and U+FEFF.
\<close>

definition isWhiteSpace :: "nat \<Rightarrow> bool" where
  "isWhiteSpace c \<longleftrightarrow>
     c \<in> {0x09, 0x0A, 0x0B, 0x0C, 0x0D, 0x20, 0xA0, 0x1680, 0x2028, 0x2029, 0x202F,
          0x205F, 0x3000, 0xFEFF}
     \<or> (0x2000 \<le> c \<and> c \<le> 0x200A)"

definition trim :: "jsstring \<Rightarrow> jsstring" where
  "trim s = rev (dropWhile isWhiteSpace (rev (dropWhile isWhiteSpace s)))"

text \<open>A number converted to a string, as JSX does with a number child. The counts and
  line numbers the client displays are non-negative integers, printed in full (JavaScript
  prints integers below 10^21 so).\<close>

fun decimal :: "nat \<Rightarrow> jsstring" where
  "decimal n = (if n < 10 then [48 + n] else decimal (n div 10) @ [48 + n mod 10])"

declare decimal.simps [simp del]

text \<open>\<open>xs.slice(-n)\<close>: the last \<open>n\<close> elements, all of them when there are fewer.\<close>

definition slice_last :: "nat \<Rightarrow> 'a list \<Rightarrow> 'a list" where
  "slice_last n xs = drop (length xs - n) xs"

section \<open>Data the client holds and exchanges\<close>

text \<open>A source of a chat answer: \<open>{file_path, start_line, end_line}\<close>.\<close>

record source =
  file_path :: jsstring
  start_line :: nat
  end_line :: nat

text \<open>An entry of the transcript \<open>messages\<close>: \<open>{message, isUser, sources}\<close>.\<close>

record chat_message =
  message :: jsstring
  isUser :: bool
  sources :: "source list"

text \<open>The status snapshot of \<open>GET /api/repos/{id}/status\<close>, kept in \<open>repoStatus\<close>.\<close>

record repo_status =
  status :: jsstring
  file_count :: nat
  processed_chunks :: nat
  error :: "jsstring option"

text \<open>
  The body of a successful \<open>POST /api/repos/process\<close>. The client reads \<open>data.repo_id\<close> and
  \<open>data.name\<close> and stores \<open>data\<close> as the status snapshot; \<open>snapshot\<close> holds the fields of
  \<open>data\<close> that are read through \<open>repoStatus\<close> afterwards.
\<close>

record process_data =
  repo_id :: jsstring
  name :: jsstring
  snapshot :: repo_status

text \<open>The file tree of \<open>GET /api/repos/{id}/files\<close>: a file has \<open>type = 'file'\<close> and a path,
  every other node is a folder of named nodes. \<open>file_tree\<close> may be absent from the body.\<close>

datatype tree_node = FileNode jsstring | FolderNode "(jsstring \<times> tree_node) list"

record files_data =
  file_tree :: "(jsstring \<times> tree_node) list option"

text \<open>The body of a successful \<open>POST /api/chat\<close>: \<open>data.response\<close> and \<open>data.sources\<close>.\<close>

record chat_data =
  response :: jsstring
  data_sources :: "source list"

text \<open>An element of \<open>conversation_history\<close>, and the body of the chat request
  (\<open>repo_id\<close>, \<open>message\<close>, \<open>conversation_history\<close>).\<close>

record turn =
  role :: jsstring
  content :: jsstring

record chat_request =
  req_repo_id :: "jsstring option"
  req_message :: jsstring
  conversation_history :: "turn list"

text \<open>
  What \<open>await fetch(...)\<close> followed by \<open>await response.json()\<close> can give: the fetch rejects
  (a network error, with its text), or a response arrives with its \<open>ok\<close> flag and a body
  that parses as JSON or does not.
\<close>

datatype 'a body = BadJson jsstring | Json 'a

datatype 'a fetch_result = NetworkError jsstring | Response bool "'a body"

text \<open>What a handler does to the outside: the requests it sends and what it logs with
  \<open>console.error\<close> (label and error text).\<close>

datatype effect =
    PostProcess jsstring
  | GetStatus "jsstring option"
  | GetFiles "jsstring option"
  | PostChat chat_request
  | ConsoleError jsstring jsstring

text \<open>The state of \<open>TalkToRepoApp\<close>: its eight \<open>useState\<close> cells.\<close>

record app_state =
  repoUrl :: jsstring
  repoId :: "jsstring option"
  repoStatus :: "repo_status option"
  files :: "files_data option"
  messages :: "chat_message list"
  currentMessage :: jsstring
  isLoading :: bool
  isSending :: bool

definition initial :: app_state where
  "initial = \<lparr>repoUrl = [], repoId = None, repoStatus = None, files = None, messages = [],
     currentMessage = [], isLoading = False, isSending = False\<rparr>"

text \<open>\<open>repoId\<close> is truthy when it is a non-empty string.\<close>

definition truthy :: "jsstring option \<Rightarrow> bool" where
  "truthy i = (case i of None \<Rightarrow> False | Some s \<Rightarrow> s \<noteq> [])"

text \<open>\<open>repoStatus?.status === s\<close>.\<close>

definition statusIs :: "jsstring \<Rightarrow> app_state \<Rightarrow> bool" where
  "statusIs s st = (case repoStatus st of None \<Rightarrow> False | Some r \<Rightarrow> status r = s)"

section \<open>The handlers\<close>

text \<open>
  A handler is modelled as running to completion on the result of its fetch: it takes
  that result and the state and returns the new state and its effects in order.

  The body of each \<open>try\<close> block starts the same way: the fetch rejects, or the response
  is not ok and the handler throws \<open>new Error(msg)\<close>, or \<open>response.json()\<close> rejects, or the
  data arrive. \<open>settle\<close> gives the thrown error's text or the data.
\<close>

fun settle :: "jsstring \<Rightarrow> 'a fetch_result \<Rightarrow> jsstring + 'a" where
  "settle msg (NetworkError e) = Inl e"
| "settle msg (Response False b) = Inl msg"
| "settle msg (Response True (BadJson e)) = Inl e"
| "settle msg (Response True (Json d)) = Inr d"

text \<open>\<open>setMessages(prev => [...prev, m])\<close>.\<close>

definition appendMessage :: "chat_message \<Rightarrow> app_state \<Rightarrow> app_state" where
  "appendMessage m st = st\<lparr>messages := messages st @ [m]\<rparr>"

text \<open>U+274C, the cross mark that starts both failure messages.\<close>

definition crossMark :: jsstring where
  "crossMark = [0x274C]"

definition startedMessage :: "jsstring \<Rightarrow> chat_message" where
  "startedMessage n =
     \<lparr>message = js ''Started processing repository: **'' @ n @ js ''**'' @ [10, 10] @
        js ''I'm analyzing the codebase and will be ready to chat once processing is complete!'',
      isUser = False, sources = []\<rparr>"

definition processFailedMessage :: chat_message where
  "processFailedMessage =
     \<lparr>message = crossMark @
        js '' Failed to process repository. Please check the URL and try again.'',
      isUser = False, sources = []\<rparr>"

text \<open>\<open>processRepo\<close> (lines 248 to 281).\<close>

definition processRepo :: "process_data fetch_result \<Rightarrow> app_state \<Rightarrow> app_state \<times> effect list" where
  "processRepo res st =
     (if trim (repoUrl st) = [] then (st, [])
      else
        let st1 = st\<lparr>isLoading := True\<rparr>;
            req = PostProcess (repoUrl st)
        in (case settle (js ''Failed to process repository'') res of
              Inr data \<Rightarrow>
                (st1\<lparr>repoId := Some (repo_id data),
                     repoStatus := Some (snapshot data),
                     messages := [startedMessage (name data)],
                     isLoading := False\<rparr>,
                 [req])
            | Inl e \<Rightarrow>
                (st1\<lparr>messages := [processFailedMessage], isLoading := False\<rparr>,
                 [req, ConsoleError (js ''Error processing repo:'') e])))"

text \<open>The history sent with a chat request (lines 301 to 304), from \<open>newMessages\<close>.\<close>

definition conversationHistory :: "chat_message list \<Rightarrow> turn list" where
  "conversationHistory newMessages =
     map (\<lambda>msg. \<lparr>role = (if isUser msg then js ''user'' else js ''assistant''),
                 content = message msg\<rparr>)
       (slice_last 5 (filter (\<lambda>msg. \<not> isUser msg) newMessages))"

definition chatFailedMessage :: chat_message where
  "chatFailedMessage =
     \<lparr>message = crossMark @ js '' Sorry, I encountered an error. Please try again.'',
      isUser = False, sources = []\<rparr>"

text \<open>\<open>sendMessage\<close> (lines 283 to 328).\<close>

definition sendMessage :: "chat_data fetch_result \<Rightarrow> app_state \<Rightarrow> app_state \<times> effect list" where
  "sendMessage res st =
     (if trim (currentMessage st) = [] \<or> \<not> truthy (repoId st) \<or> \<not> statusIs (js ''ready'') st
      then (st, [])
      else
        let userMessage = currentMessage st;
            newMessages = messages st @ [\<lparr>message = userMessage, isUser = True, sources = []\<rparr>];
            st1 = st\<lparr>currentMessage := [], isSending := True, messages := newMessages\<rparr>;
            req = PostChat \<lparr>req_repo_id = repoId st, req_message = userMessage,
                    conversation_history = conversationHistory newMessages\<rparr>
        in (case settle (js ''Failed to send message'') res of
              Inr data \<Rightarrow>
                ((appendMessage
                    \<lparr>message = response data, isUser = False, sources = data_sources data\<rparr> st1)
                   \<lparr>isSending := False\<rparr>,
                 [req])
            | Inl e \<Rightarrow>
                ((appendMessage chatFailedMessage st1)\<lparr>isSending := False\<rparr>,
                 [req, ConsoleError (js ''Error sending message:'') e])))"

text \<open>
  \<open>processRepo\<close> and \<open>sendMessage\<close> above are the handlers run to completion on the result
  of their fetch. In the page a handler stops at its \<open>await\<close> and goes on when the answer
  arrives, and other handlers run in between. So each handler also stands here in two
  parts: what it does up to the fetch, and what it does with the answer, on the state of
  that later moment. After the \<open>await\<close> the handlers use the setters only, with the data of
  the answer or with a function of the previous value.

  \<open>processRepo\<close> up to its fetch (lines 249 to 257) and after it (lines 259 to 280).
\<close>

definition processRepoStart :: "app_state \<Rightarrow> app_state \<times> effect list" where
  "processRepoStart st =
     (if trim (repoUrl st) = [] then (st, [])
      else (st\<lparr>isLoading := True\<rparr>, [PostProcess (repoUrl st)]))"

definition submitAnswered :: "process_data fetch_result \<Rightarrow> app_state \<Rightarrow> app_state \<times> effect list" where
  "submitAnswered res st =
     (case settle (js ''Failed to process repository'') res of
        Inr data \<Rightarrow>
          (st\<lparr>repoId := Some (repo_id data),
              repoStatus := Some (snapshot data),
              messages := [startedMessage (name data)],
              isLoading := False\<rparr>,
           [])
      | Inl e \<Rightarrow>
          (st\<lparr>messages := [processFailedMessage], isLoading := False\<rparr>,
           [ConsoleError (js ''Error processing repo:'') e]))"

text \<open>\<open>sendMessage\<close> up to its fetch (lines 284 to 306) and after it (lines 308 to 327).\<close>

definition sendMessageStart :: "app_state \<Rightarrow> app_state \<times> effect list" where
  "sendMessageStart st =
     (if trim (currentMessage st) = [] \<or> \<not> truthy (repoId st) \<or> \<not> statusIs (js ''ready'') st
      then (st, [])
      else
        let userMessage = currentMessage st;
            newMessages = messages st @ [\<lparr>message = userMessage, isUser = True, sources = []\<rparr>]
        in (st\<lparr>currentMessage := [], isSending := True, messages := newMessages\<rparr>,
            [PostChat \<lparr>req_repo_id = repoId st, req_message = userMessage,
               conversation_history = conversationHistory newMessages\<rparr>]))"

definition chatAnswered :: "chat_data fetch_result \<Rightarrow> app_state \<Rightarrow> app_state \<times> effect list" where
  "chatAnswered res st =
     (case settle (js ''Failed to send message'') res of
        Inr data \<Rightarrow>
          ((appendMessage
              \<lparr>message = response data, isUser = False, sources = data_sources data\<rparr> st)
             \<lparr>isSending := False\<rparr>,
           [])
      | Inl e \<Rightarrow>
          ((appendMessage chatFailedMessage st)\<lparr>isSending := False\<rparr>,
           [ConsoleError (js ''Error sending message:'') e]))"

text \<open>
  The polling effect (lines 221 to 246). With dependencies \<open>[repoId, repoStatus?.status]\<close>,
  an interval is active exactly while \<open>polling\<close> holds of the state: a change of either
  dependency runs the cleanup, which clears the interval, and the effect sets a new one
  only under the same condition. The interval fires every two seconds whether or not
  the callbacks it started before have had their answers.
\<close>

definition polling :: "app_state \<Rightarrow> bool" where
  "polling st \<longleftrightarrow> truthy (repoId st) \<and> statusIs (js ''processing'') st"

text \<open>
  The interval's callback sends the status read for the job id \<open>i\<close> of its closure. With
  the answer (lines 226 to 238): a response that is not ok is ignored without an error;
  an ok one replaces the snapshot, and when it reports \<open>ready\<close> the callback sends the
  files read for \<open>i\<close>. With the answer of the files read (lines 232 to 236) the listing
  is stored. The \<open>clearInterval\<close> of line 236 clears the interval of the callback, which
  the cleanup has cleared before, when the snapshot changed to \<open>ready\<close>.
\<close>

definition statusAnswered ::
  "jsstring option \<Rightarrow> repo_status fetch_result \<Rightarrow> app_state \<Rightarrow> app_state \<times> effect list" where
  "statusAnswered i res st =
     (case res of
        NetworkError e \<Rightarrow> (st, [ConsoleError (js ''Error checking status:'') e])
      | Response ok b \<Rightarrow>
          if \<not> ok then (st, [])
          else (case b of
             BadJson e \<Rightarrow> (st, [ConsoleError (js ''Error checking status:'') e])
           | Json s \<Rightarrow>
               (st\<lparr>repoStatus := Some s\<rparr>,
                if status s = js ''ready'' then [GetFiles i] else [])))"

definition filesAnswered :: "files_data fetch_result \<Rightarrow> app_state \<Rightarrow> app_state \<times> effect list" where
  "filesAnswered res st =
     (case res of
        NetworkError e \<Rightarrow> (st, [ConsoleError (js ''Error checking status:'') e])
      | Response ok b \<Rightarrow>
          if \<not> ok then (st, [])
          else (case b of
             BadJson e \<Rightarrow> (st, [ConsoleError (js ''Error checking status:'') e])
           | Json f \<Rightarrow> (st\<lparr>files := Some f\<rparr>, [])))"

text \<open>
  \<open>renderMessageContent\<close> first splits the message with
  \<open>content.split(/(FENCE[\s\S]*?FENCE)/g)\<close>, where FENCE is three U+0060 code units. The
  pattern matches at a position when the fence stands there and a closing fence follows;
  the lazy body is the shortest one. \<open>findClose s\<close> looks for the first closing fence in
  \<open>s\<close> and gives the body before it and the text after it.
\<close>

definition fence :: jsstring where
  "fence = [96, 96, 96]"

fun findClose :: "jsstring \<Rightarrow> (jsstring \<times> jsstring) option" where
  "findClose [] = None"
| "findClose (c # cs) =
     (if take 3 (c # cs) = fence then Some ([], drop 3 (c # cs))
      else map_option (\<lambda>(b, r). (c # b, r)) (findClose cs))"

text \<open>A match of the pattern at the start of \<open>s\<close>: the matched text and the rest.\<close>

definition matchFence :: "jsstring \<Rightarrow> (jsstring \<times> jsstring) option" where
  "matchFence s =
     (if take 3 s = fence
      then map_option (\<lambda>(b, r). (fence @ b @ fence, r)) (findClose (drop 3 s))
      else None)"

text \<open>
  The split loop: \<open>acc\<close> is the text since the last match. At the end of the string the
  text since the last match is the last part. Where the pattern matches, the text before
  the match and then the match itself (the pattern's one capture group is the whole
  match) are parts, and the search goes on after the match; elsewhere it moves on by one
  code unit. A match is never empty.
\<close>

function splitLoop :: "jsstring \<Rightarrow> jsstring \<Rightarrow> jsstring list" where
  "splitLoop acc s =
     (case s of
        [] \<Rightarrow> [acc]
      | c # cs \<Rightarrow>
          (case matchFence s of
             Some (m, rest) \<Rightarrow> acc # m # splitLoop [] rest
           | None \<Rightarrow> splitLoop (acc @ [c]) cs))"
  by pat_completeness auto
termination
proof -
  have close: "findClose s = Some (b, r) \<Longrightarrow> length r < length s" for s b r
  proof (induction s arbitrary: b)
    case Nil
    then show ?case by simp
  next
    case (Cons c cs)
    show ?case
    proof (cases "take 3 (c # cs) = fence")
      case True
      with Cons.prems show ?thesis by auto
    next
      case False
      with Cons.prems obtain b' where "findClose cs = Some (b', r)"
        by (auto split: prod.splits)
      from Cons.IH [OF this] show ?thesis by simp
    qed
  qed
  have shorter: "matchFence s = Some (m, rest) \<Longrightarrow> length rest < length s" for s m rest
    by (auto simp: matchFence_def split: if_splits prod.splits dest!: close)
  show ?thesis
    by (relation "measure (\<lambda>(acc, s). length s)") (auto dest: shorter)
qed

declare splitLoop.simps [simp del]

definition splitCodeBlocks :: "jsstring \<Rightarrow> jsstring list" where
  "splitCodeBlocks s = splitLoop [] s"

text \<open>
  Each part is then rendered (lines 114 to 151). A part that starts and ends with the
  fence becomes a code block: \<open>lines = part.split('\n')\<close>, the language is \<open>lines[0]\<close>
  without its first fence, or \<open>text\<close> when that is empty, and the code is
  \<open>lines.slice(1, -1).join('\n')\<close>, the lines strictly between the first and the last.
  Every other part becomes a \<open>div\<close> whose markup is the part with each inline code
  span, a U+0060, one or more other code units and a U+0060, put into a \<open>code\<close> tag.
\<close>

definition startsWith :: "jsstring \<Rightarrow> jsstring \<Rightarrow> bool" where
  "startsWith p s \<longleftrightarrow> take (length p) s = p"

definition endsWith :: "jsstring \<Rightarrow> jsstring \<Rightarrow> bool" where
  "endsWith p s \<longleftrightarrow> length p \<le> length s \<and> drop (length s - length p) s = p"

text \<open>\<open>s.split('\n')\<close>, with the line read so far in \<open>acc\<close>.\<close>

fun splitNewline :: "jsstring \<Rightarrow> jsstring \<Rightarrow> jsstring list" where
  "splitNewline acc [] = [acc]"
| "splitNewline acc (c # cs) =
     (if c = 10 then acc # splitNewline [] cs else splitNewline (acc @ [c]) cs)"

text \<open>\<open>s.replace(FENCE, '')\<close>: the first fence in \<open>s\<close> is taken out.\<close>

fun removeFirstFence :: "jsstring \<Rightarrow> jsstring" where
  "removeFirstFence [] = []"
| "removeFirstFence (c # cs) =
     (if take 3 (c # cs) = fence then drop 3 (c # cs) else c # removeFirstFence cs)"

text \<open>\<open>xs.slice(1, -1)\<close> and \<open>xs.join('\n')\<close>.\<close>

definition slice_inner :: "'a list \<Rightarrow> 'a list" where
  "slice_inner xs = take (length xs - 2) (drop 1 xs)"

fun joinLines :: "jsstring list \<Rightarrow> jsstring" where
  "joinLines [] = []"
| "joinLines [l] = l"
| "joinLines (l # m # ls) = l @ [10] @ joinLines (m # ls)"

text \<open>The replacement of line 148: the opening tag with its style, the span's inner
  text (\<open>$1\<close>), the closing tag. U+0022 stands around the style.\<close>

definition codeOpen :: jsstring where
  "codeOpen =
     js ''<code style='' @ [34] @
     js ''background: var(--dark-surface); padding: 0.125rem 0.25rem; '' @
     js ''border-radius: 0.25rem; color: var(--primary); '' @
     js ''font-family: var(--font-mono); font-size: 0.875rem;'' @ [34] @ js ''>''"

definition codeClose :: jsstring where
  "codeClose = js ''</code>''"

text \<open>
  The global replace: at a U+0060 followed by a non-empty run of other code units and a
  U+0060 the span is replaced and the search goes on after it; elsewhere the code unit
  is kept and the search moves on by one.
\<close>

function inlineCode :: "jsstring \<Rightarrow> jsstring" where
  "inlineCode s =
     (case s of
        [] \<Rightarrow> []
      | c # cs \<Rightarrow>
          (if c = 96 \<and> takeWhile (\<lambda>x. x \<noteq> 96) cs \<noteq> [] \<and> dropWhile (\<lambda>x. x \<noteq> 96) cs \<noteq> []
           then codeOpen @ takeWhile (\<lambda>x. x \<noteq> 96) cs @ codeClose @
                inlineCode (tl (dropWhile (\<lambda>x. x \<noteq> 96) cs))
           else c # inlineCode cs))"
  by pat_completeness auto
termination
proof (relation "measure length")
  show "wf (measure length)" by simp
next
  fix s :: jsstring and c cs
  assume "s = c # cs"
  have "length (tl (dropWhile (\<lambda>x. x \<noteq> 96) cs)) \<le> length cs"
    using length_dropWhile_le [of "\<lambda>x. x \<noteq> 96" cs] by simp
  with \<open>s = c # cs\<close> show "(tl (dropWhile (\<lambda>x. x \<noteq> 96) cs), s) \<in> measure length"
    by simp
next
  fix s :: jsstring and c cs
  assume "s = c # cs"
  then show "(cs, s) \<in> measure length" by simp
qed

declare inlineCode.simps [simp del]

text \<open>
  A rendered part. For a code block: the language (the \<open>data-language\<close> attribute) and
  the code, which the copy button copies and \<open>highlightCode\<close> (lines 8 to 34) turns into
  the markup of the \<open>code\<close> element. For a text part: the markup of the \<open>div\<close>. The page
  reads either markup as HTML.
  \<open>split\<close> never gives an empty array, so the first case of \<open>lines\<close> does not arise.
\<close>

datatype rendered_part = CodeBlock jsstring jsstring | TextDiv jsstring

definition renderPart :: "jsstring \<Rightarrow> rendered_part" where
  "renderPart part =
     (if startsWith fence part \<and> endsWith fence part then
        (case splitNewline [] part of
           [] \<Rightarrow> CodeBlock (js ''text'') []
         | first # rest \<Rightarrow>
             CodeBlock
               (if removeFirstFence first = [] then js ''text'' else removeFirstFence first)
               (joinLines (slice_inner (first # rest))))
      else TextDiv (inlineCode part))"

definition renderMessageContent :: "jsstring \<Rightarrow> rendered_part list" where
  "renderMessageContent s = map renderPart (splitCodeBlocks s)"


section \<open>What the user sees\<close>

text \<open>The Sources block of \<open>Message\<close> (lines 168 to 193): shown when \<open>sources.length > 0\<close>,
  one row per source with the file path and the text \<open>lines a-b\<close>.\<close>

record citation =
  cite_path :: jsstring
  cite_lines :: jsstring

definition renderSource :: "source \<Rightarrow> citation" where
  "renderSource s =
     \<lparr>cite_path = file_path s,
      cite_lines = js ''lines '' @ decimal (start_line s) @ js ''-'' @ decimal (end_line s)\<rparr>"

definition renderSources :: "source list \<Rightarrow> citation list option" where
  "renderSources srcs = (if length srcs > 0 then Some (map renderSource srcs) else None)"

text \<open>A rendered \<open>Message\<close>: whose it is, its text as \<open>renderMessageContent\<close> renders it, and
  the Sources block when there is one.\<close>

record message_view =
  mv_isUser :: bool
  mv_parts :: "rendered_part list"
  mv_sources :: "citation list option"

definition renderMessage :: "chat_message \<Rightarrow> message_view" where
  "renderMessage m =
     \<lparr>mv_isUser = isUser m, mv_parts = renderMessageContent (message m),
      mv_sources = renderSources (sources m)\<rparr>"

text \<open>The status badge (lines 400 to 413), rendered when \<open>repoStatus\<close> is set.\<close>

datatype icon = Spinner | CheckIcon | ZapIcon

record badge =
  badge_class :: jsstring
  badge_icons :: "icon list"
  badge_text :: jsstring

definition statusBadge :: "repo_status \<Rightarrow> badge" where
  "statusBadge r =
     \<lparr>badge_class =
        (if status r = js ''processing'' then js ''status-processing''
         else if status r = js ''ready'' then js ''status-ready''
         else js ''status-failed''),
      badge_icons =
        (if status r = js ''processing'' then [Spinner] else []) @
        (if status r = js ''ready'' then [CheckIcon] else []) @
        (if status r = js ''failed'' then [ZapIcon] else []),
      badge_text =
        status r @ js '' - '' @ decimal (file_count r) @ js '' files, '' @
        decimal (processed_chunks r) @ js '' chunks''\<rparr>"

text \<open>The file explorer (lines 88 to 97): the tree when \<open>files?.file_tree\<close> is there, the
  placeholder \<open>No files loaded\<close> otherwise.\<close>

datatype explorer = NoFilesLoaded | Listing "(jsstring \<times> tree_node) list"

definition fileTree :: "files_data option \<Rightarrow> explorer" where
  "fileTree fs =
     (case fs of
        None \<Rightarrow> NoFilesLoaded
      | Some f \<Rightarrow> (case file_tree f of None \<Rightarrow> NoFilesLoaded | Some t \<Rightarrow> Listing t))"

text \<open>The URL section (lines 361 to 397), rendered while \<open>repoId\<close> is falsy.\<close>

record url_section =
  url_value :: jsstring
  analyze_disabled :: bool
  analyze_label :: jsstring

definition urlSection :: "app_state \<Rightarrow> url_section" where
  "urlSection st =
     \<lparr>url_value = repoUrl st,
      analyze_disabled = (isLoading st \<or> trim (repoUrl st) = []),
      analyze_label = (if isLoading st then js ''Processing'' else js ''Analyze'')\<rparr>"

text \<open>The main interface (lines 416 to 503), rendered once \<open>repoId\<close> is truthy.\<close>

record main_view =
  explorer_pane :: explorer
  transcript :: "message_view list"
  thinking :: bool
  input_value :: jsstring
  input_placeholder :: jsstring
  input_disabled :: bool
  send_disabled :: bool
  quick_disabled :: bool

definition mainView :: "app_state \<Rightarrow> main_view" where
  "mainView st =
     \<lparr>explorer_pane = fileTree (files st),
      transcript = map renderMessage (messages st),
      thinking = isSending st,
      input_value = currentMessage st,
      input_placeholder =
        (if statusIs (js ''ready'') st then js ''Ask about the codebase...''
         else js ''Repository is processing...''),
      input_disabled = (\<not> statusIs (js ''ready'') st \<or> isSending st),
      send_disabled =
        (trim (currentMessage st) = [] \<or> \<not> statusIs (js ''ready'') st \<or> isSending st),
      quick_disabled = (\<not> statusIs (js ''ready'') st)\<rparr>"

record view =
  url_view :: "url_section option"
  badge_view :: "badge option"
  main :: "main_view option"

definition render :: "app_state \<Rightarrow> view" where
  "render st =
     \<lparr>url_view = (if \<not> truthy (repoId st) then Some (urlSection st) else None),
      badge_view = map_option statusBadge (repoStatus st),
      main = (if truthy (repoId st) then Some (mainView st) else None)\<rparr>"

section \<open>Sessions\<close>

text \<open>
  The client over time: the state of the page and the requests that are in flight. A
  submission or a chat request in flight has nothing of its own that matters once its
  answer arrives, so these are counted; a status read or a files read in flight belongs
  to a callback that holds the job id it captured.
\<close>

record client =
  ui :: app_state
  submitting :: nat
  reading :: "jsstring option list"
  listing :: "jsstring option list"
  sending :: nat

definition start :: "app_state \<Rightarrow> client" where
  "start st = \<lparr>ui = st, submitting = 0, reading = [], listing = [], sending = 0\<rparr>"

text \<open>The four quick actions (lines 485 to 490).\<close>

definition quickActions :: "jsstring list" where
  "quickActions =
     [js ''Explain the main architecture'', js ''Find security vulnerabilities'',
      js ''Show me the entry point'', js ''Generate tests for core functions'']"

text \<open>
  What can happen:
  \<^item> \<open>TypeUrl\<close>, \<open>PressEnter\<close>, \<open>ClickAnalyze\<close>: the URL input changes, Enter is pressed in it
    (line 375 calls \<open>processRepo\<close>), the Analyze button is clicked. The section exists
    while \<open>repoId\<close> is falsy; the button is disabled while \<open>isLoading\<close> holds or the
    locator is blank, the input is never disabled.
  \<^item> \<open>SubmitAnswer\<close>: the answer of a submission in flight arrives.
  \<^item> \<open>Tick\<close>: the interval fires and its callback sends a status read for the job id held.
  \<^item> \<open>StatusAnswer\<close>, \<open>FilesAnswer\<close>: the answer of a status read or a files read of a
    callback that captured the given job id arrives.
  \<^item> \<open>TypeMessage\<close>, \<open>QuickAction\<close>: the chat input changes (enabled while the status is
    \<open>ready\<close> and nothing is being sent), a quick action is clicked (enabled while the
    status is \<open>ready\<close>). Both exist once \<open>repoId\<close> is truthy.
  \<^item> \<open>PressSend\<close>: Enter in the chat input or a click on Send, both disabled unless the
    status is \<open>ready\<close> and nothing is being sent.
  \<^item> \<open>ChatAnswer\<close>: the answer of a chat request in flight arrives.
  An event that cannot happen in a state leaves it as it is.
\<close>

datatype event =
    TypeUrl jsstring
  | PressEnter
  | ClickAnalyze
  | SubmitAnswer "process_data fetch_result"
  | Tick
  | StatusAnswer "jsstring option" "repo_status fetch_result"
  | FilesAnswer "jsstring option" "files_data fetch_result"
  | TypeMessage jsstring
  | QuickAction jsstring
  | PressSend
  | ChatAnswer "chat_data fetch_result"

fun step :: "event \<Rightarrow> client \<Rightarrow> client \<times> effect list" where
  "step (TypeUrl u) c =
     (if truthy (repoId (ui c)) then (c, [])
      else (c\<lparr>ui := (ui c)\<lparr>repoUrl := u\<rparr>\<rparr>, []))"
| "step PressEnter c =
     (if truthy (repoId (ui c)) then (c, [])
      else
        let (st, es) = processRepoStart (ui c)
        in (c\<lparr>ui := st, submitting := submitting c + length es\<rparr>, es))"
| "step ClickAnalyze c =
     (if truthy (repoId (ui c)) \<or> isLoading (ui c) \<or> trim (repoUrl (ui c)) = [] then (c, [])
      else
        let (st, es) = processRepoStart (ui c)
        in (c\<lparr>ui := st, submitting := submitting c + length es\<rparr>, es))"
| "step (SubmitAnswer res) c =
     (if submitting c = 0 then (c, [])
      else
        let (st, es) = submitAnswered res (ui c)
        in (c\<lparr>ui := st, submitting := submitting c - 1\<rparr>, es))"
| "step Tick c =
     (if polling (ui c)
      then (c\<lparr>reading := reading c @ [repoId (ui c)]\<rparr>, [GetStatus (repoId (ui c))])
      else (c, []))"
| "step (StatusAnswer i res) c =
     (if i \<in> set (reading c) then
        let (st, es) = statusAnswered i res (ui c)
        in (c\<lparr>ui := st, reading := remove1 i (reading c),
              listing := listing c @ (if GetFiles i \<in> set es then [i] else [])\<rparr>, es)
      else (c, []))"
| "step (FilesAnswer i res) c =
     (if i \<in> set (listing c) then
        let (st, es) = filesAnswered res (ui c)
        in (c\<lparr>ui := st, listing := remove1 i (listing c)\<rparr>, es)
      else (c, []))"
| "step (TypeMessage m) c =
     (if truthy (repoId (ui c)) \<and> statusIs (js ''ready'') (ui c) \<and> \<not> isSending (ui c)
      then (c\<lparr>ui := (ui c)\<lparr>currentMessage := m\<rparr>\<rparr>, [])
      else (c, []))"
| "step (QuickAction m) c =
     (if truthy (repoId (ui c)) \<and> statusIs (js ''ready'') (ui c) \<and> m \<in> set quickActions
      then (c\<lparr>ui := (ui c)\<lparr>currentMessage := m\<rparr>\<rparr>, [])
      else (c, []))"
| "step PressSend c =
     (if truthy (repoId (ui c)) \<and> statusIs (js ''ready'') (ui c) \<and> \<not> isSending (ui c) then
        let (st, es) = sendMessageStart (ui c)
        in (c\<lparr>ui := st, sending := sending c + length es\<rparr>, es)
      else (c, []))"
| "step (ChatAnswer res) c =
     (if sending c = 0 then (c, [])
      else
        let (st, es) = chatAnswered res (ui c)
        in (c\<lparr>ui := st, sending := sending c - 1\<rparr>, es))"

fun exec :: "event list \<Rightarrow> client \<Rightarrow> client \<times> effect list" where
  "exec [] c = (c, [])"
| "exec (ev # evs) c =
     (let (c1, es1) = step ev c;
          (c2, es2) = exec evs c1
      in (c2, es1 @ es2))"

text \<open>A session from a state of the page with nothing in flight: the state of the page
  it ends in and its effects in order.\<close>

definition run :: "event list \<Rightarrow> app_state \<Rightarrow> app_state \<times> effect list" where
  "run evs st = (ui (fst (exec evs (start st))), snd (exec evs (start st)))"

text \<open>
  A submission that is answered before anything else happens, and one polling tick whose
  reads for the job id \<open>i\<close> are answered before the next tick (the files answer finds no
  read in flight unless the status answer reported \<open>ready\<close>).
\<close>

definition submission :: "jsstring \<Rightarrow> process_data \<Rightarrow> event list" where
  "submission u d = [TypeUrl u, PressEnter, SubmitAnswer (Response True (Json d))]"

definition answeredTick ::
  "jsstring option \<Rightarrow> repo_status fetch_result \<times> files_data fetch_result \<Rightarrow> event list" where
  "answeredTick i t = [Tick, StatusAnswer i (fst t), FilesAnswer i (snd t)]"

section \<open>Outcomes, effects and sample data\<close>

text \<open>A request has failed when the fetch rejected or the response is not ok.\<close>

fun failed :: "'a fetch_result \<Rightarrow> bool" where
  "failed (NetworkError e) = True"
| "failed (Response ok b) = (\<not> ok)"

text \<open>A status answer after which the callback leaves the observed status at
  \<open>processing\<close>: the read failed, or it reported \<open>processing\<close>.\<close>

fun stillProcessing :: "repo_status fetch_result \<Rightarrow> bool" where
  "stillProcessing (NetworkError e) = True"
| "stillProcessing (Response ok (BadJson e)) = True"
| "stillProcessing (Response ok (Json s)) = (\<not> ok \<or> status s = js ''processing'')"

fun isGetStatus :: "effect \<Rightarrow> bool" where
  "isGetStatus (GetStatus i) = True"
| "isGetStatus e = False"

text \<open>
  Two invariants of sessions. \<open>settled\<close>: a job id is held, the status held is not
  \<open>processing\<close>, and neither a submission nor a status read is in flight. \<open>steady i\<close>:
  the job \<open>i\<close> is held with the status \<open>processing\<close> and no submission and no read is in
  flight.
\<close>

definition settled :: "client \<Rightarrow> bool" where
  "settled c \<longleftrightarrow>
     truthy (repoId (ui c)) \<and> \<not> statusIs (js ''processing'') (ui c) \<and>
     submitting c = 0 \<and> reading c = []"

definition steady :: "jsstring \<Rightarrow> client \<Rightarrow> bool" where
  "steady i c \<longleftrightarrow>
     repoId (ui c) = Some i \<and> i \<noteq> [] \<and> statusIs (js ''processing'') (ui c) \<and>
     submitting c = 0 \<and> reading c = [] \<and> listing c = []"

text \<open>Sample data for the concrete instances: a locator, answers of the backend, and
  sessions.\<close>

definition sampleUrl :: jsstring where
  "sampleUrl = js ''https://github.com/u/r''"

definition sampleData :: "jsstring \<Rightarrow> process_data" where
  "sampleData s =
     \<lparr>repo_id = js ''r1'', name = js ''r'',
      snapshot = \<lparr>status = s, file_count = 0, processed_chunks = 0, error = None\<rparr>\<rparr>"

definition secondData :: process_data where
  "secondData =
     \<lparr>repo_id = js ''r2'', name = js ''r'',
      snapshot = \<lparr>status = js ''processing'', file_count = 0, processed_chunks = 0,
                  error = None\<rparr>\<rparr>"

definition processingSnapshot :: repo_status where
  "processingSnapshot =
     \<lparr>status = js ''processing'', file_count = 3, processed_chunks = 2, error = None\<rparr>"

definition readySnapshot :: repo_status where
  "readySnapshot = \<lparr>status = js ''ready'', file_count = 3, processed_chunks = 7, error = None\<rparr>"

definition failedSnapshot :: "jsstring \<Rightarrow> repo_status" where
  "failedSnapshot e =
     \<lparr>status = js ''failed'', file_count = 3, processed_chunks = 2, error = Some e\<rparr>"

definition sampleFiles :: files_data where
  "sampleFiles = \<lparr>file_tree = Some [(js ''app.py'', FileNode (js ''app.py''))]\<rparr>"

definition firstAnswer :: chat_data where
  "firstAnswer =
     \<lparr>response = js ''In app.py.'',
      data_sources = [\<lparr>file_path = js ''app.py'', start_line = 1, end_line = 20\<rparr>]\<rparr>"

definition answer :: chat_data where
  "answer =
     \<lparr>response = js ''In tests/.'',
      data_sources = [\<lparr>file_path = js ''tests/test_app.py'', start_line = 5, end_line = 12\<rparr>]\<rparr>"

text \<open>A session up to the user's second question, and the state it leads to.\<close>

definition chatSession :: "event list" where
  "chatSession =
     [TypeUrl sampleUrl, PressEnter,
      SubmitAnswer (Response True (Json (sampleData (js ''processing'')))),
      Tick,
      StatusAnswer (Some (js ''r1'')) (Response True (Json readySnapshot)),
      FilesAnswer (Some (js ''r1'')) (Response True (Json sampleFiles)),
      TypeMessage (js ''Where is main?''), PressSend,
      ChatAnswer (Response True (Json firstAnswer)),
      TypeMessage (js ''And the tests?'')]"

definition chatting :: app_state where
  "chatting =
     \<lparr>repoUrl = sampleUrl, repoId = Some (js ''r1''),
      repoStatus = Some readySnapshot, files = Some sampleFiles,
      messages =
        [startedMessage (js ''r''),
         \<lparr>message = js ''Where is main?'', isUser = True, sources = []\<rparr>,
         \<lparr>message = js ''In app.py.'', isUser = False,
          sources = [\<lparr>file_path = js ''app.py'', start_line = 1, end_line = 20\<rparr>]\<rparr>],
      currentMessage = js ''And the tests?'', isLoading = False, isSending = False\<rparr>"

text \<open>A session in which the job fails with the cause \<open>e\<close>.\<close>

definition failing :: "jsstring \<Rightarrow> event list" where
  "failing e =
     [TypeUrl sampleUrl, PressEnter,
      SubmitAnswer (Response True (Json (sampleData (js ''processing'')))),
      Tick,
      StatusAnswer (Some (js ''r1'')) (Response True (Json (failedSnapshot e)))]"

text \<open>
  A session in which Enter is pressed twice in the URL input: two submissions are in
  flight, the first is answered with the job \<open>r1\<close>, which becomes ready and has its files
  listed, and then the answer of the second arrives with the job \<open>r2\<close>.
\<close>

definition twoSubmissions :: "event list" where
  "twoSubmissions =
     [TypeUrl sampleUrl, PressEnter, PressEnter,
      SubmitAnswer (Response True (Json (sampleData (js ''processing'')))),
      Tick,
      StatusAnswer (Some (js ''r1'')) (Response True (Json readySnapshot)),
      FilesAnswer (Some (js ''r1'')) (Response True (Json sampleFiles)),
      SubmitAnswer (Response True (Json secondData))]"

text \<open>
  A session in which the second tick comes before the first read is answered: both reads
  report \<open>ready\<close>, the files are listed, and then the late answer of an earlier read
  reports \<open>processing\<close>.
\<close>

definition overlapping :: "event list" where
  "overlapping =
     submission sampleUrl (sampleData (js ''processing'')) @
     [Tick, Tick, Tick,
      StatusAnswer (Some (js ''r1'')) (Response True (Json readySnapshot)),
      FilesAnswer (Some (js ''r1'')) (Response True (Json sampleFiles)),
      StatusAnswer (Some (js ''r1'')) (Response True (Json readySnapshot)),
      Tick,
      StatusAnswer (Some (js ''r1'')) (Response True (Json processingSnapshot)),
      Tick]"



section \<open>Basic facts\<close>

lemma js_eq_iff: "js a = js b \<longleftrightarrow> a = b"
  unfolding js_def by (simp add: inj_map_eq_map inj_of_char)

lemma js_empty: "js a = [] \<longleftrightarrow> a = []"
  by (simp add: js_def)

lemma dropWhile_all: "\<forall>x\<in>set xs. P x \<Longrightarrow> dropWhile P xs = []"
  by (induction xs) auto

lemma trim_blank: "\<forall>c\<in>set s. isWhiteSpace c \<Longrightarrow> trim s = []"
  by (simp add: trim_def dropWhile_all)

lemma settle_failed: "failed res \<Longrightarrow> \<exists>e. settle msg res = Inl e"
  by (cases "(msg, res)" rule: settle.cases) auto

text \<open>The handlers run to completion are their two parts, one after the other.\<close>

lemma processRepo_parts:
  "processRepo res st =
     (if trim (repoUrl st) = [] then (st, [])
      else (fst (submitAnswered res (fst (processRepoStart st))),
            snd (processRepoStart st) @ snd (submitAnswered res (fst (processRepoStart st)))))"
  by (simp add: processRepo_def processRepoStart_def submitAnswered_def Let_def split: sum.splits)

lemma sendMessage_parts:
  "sendMessage res st =
     (if snd (sendMessageStart st) = [] then (st, [])
      else (fst (chatAnswered res (fst (sendMessageStart st))),
            snd (sendMessageStart st) @ snd (chatAnswered res (fst (sendMessageStart st)))))"
  by (auto simp: sendMessage_def sendMessageStart_def chatAnswered_def Let_def split: sum.splits)

lemma exec_Cons:
  "exec (ev # evs) c =
     (fst (exec evs (fst (step ev c))), snd (step ev c) @ snd (exec evs (fst (step ev c))))"
  by (simp add: split_beta)

lemma exec_append:
  "exec (xs @ ys) c =
     (fst (exec ys (fst (exec xs c))), snd (exec xs c) @ snd (exec ys (fst (exec xs c))))"
  by (induction xs arbitrary: c) (simp_all add: split_beta)

lemma render_error:
  "render (st\<lparr>repoStatus := Some (r\<lparr>error := e\<rparr>)\<rparr>) = render (st\<lparr>repoStatus := Some r\<rparr>)"
  by (simp add: render_def mainView_def urlSection_def statusBadge_def statusIs_def)

subsection \<open>The sample sessions\<close>

lemma trim_sampleUrl: "trim sampleUrl \<noteq> []"
  by (simp add: sampleUrl_def trim_def js_def isWhiteSpace_def)

lemma trim_questions:
  "trim (js ''Where is main?'') \<noteq> []" "trim (js ''And the tests?'') \<noteq> []"
  by (simp_all add: trim_def js_def isWhiteSpace_def)

lemma exec_submission:
  assumes "trim u \<noteq> []"
  shows "exec (submission u d) (start initial) =
     (\<lparr>ui = \<lparr>repoUrl = u, repoId = Some (repo_id d), repoStatus = Some (snapshot d),
              files = None, messages = [startedMessage (name d)], currentMessage = [],
              isLoading = False, isSending = False\<rparr>,
        submitting = 0, reading = [], listing = [], sending = 0\<rparr>,
      [PostProcess u])"
  using assms
  by (simp add: submission_def start_def initial_def truthy_def processRepoStart_def
        submitAnswered_def)

lemma chatting_reached: "fst (run chatSession initial) = chatting"
  using trim_sampleUrl trim_questions
  by (simp add: run_def chatSession_def chatting_def start_def initial_def truthy_def
        processRepoStart_def submitAnswered_def sampleData_def Let_def polling_def statusIs_def
        statusAnswered_def filesAnswered_def js_eq_iff js_empty readySnapshot_def
        sendMessageStart_def chatAnswered_def appendMessage_def firstAnswer_def)

lemma chatting_guard:
  "trim (currentMessage chatting) \<noteq> []" "truthy (repoId chatting)"
  "statusIs (js ''ready'') chatting"
  using trim_questions
  by (simp_all add: chatting_def truthy_def statusIs_def readySnapshot_def js_empty)

lemma run_failing:
  "run (failing e) initial =
     (\<lparr>repoUrl = sampleUrl, repoId = Some (js ''r1''),
       repoStatus = Some (failedSnapshot e), files = None,
       messages = [startedMessage (js ''r'')], currentMessage = [],
       isLoading = False, isSending = False\<rparr>,
      [PostProcess sampleUrl, GetStatus (Some (js ''r1''))])"
  using trim_sampleUrl
  by (simp add: run_def failing_def start_def initial_def truthy_def processRepoStart_def
        submitAnswered_def sampleData_def Let_def polling_def statusIs_def statusAnswered_def
        js_eq_iff js_empty failedSnapshot_def)

section \<open>Rejecting a blank locator\<close>

text \<open>
  C8. When the repository locator \<open>repoUrl\<close> is empty or made of whitespace only,
  \<open>processRepo\<close> sends no request, logs nothing and returns the state it was given,
  whatever the backend would have answered.
\<close>

theorem processRepo_blank_locator:
  assumes "\<forall>c\<in>set (repoUrl st). isWhiteSpace c"
  shows "processRepo res st = (st, [])"
  using assms by (simp add: processRepo_def trim_blank)

theorem processRepo_blank_locator_witness:
  "list_all isWhiteSpace ([32, 9] @ js ''  '') \<and>
   processRepo (Response True (Json (sampleData (js ''processing''))))
     (initial\<lparr>repoUrl := [32, 9] @ js ''  ''\<rparr>) = (initial\<lparr>repoUrl := [32, 9] @ js ''  ''\<rparr>, [])"
proof -
  have h: "\<forall>c\<in>set (repoUrl (initial\<lparr>repoUrl := [32, 9] @ js ''  ''\<rparr>)). isWhiteSpace c"
    by (simp add: js_def isWhiteSpace_def)
  have "list_all isWhiteSpace ([32, 9] @ js ''  '')"
    by (simp add: js_def isWhiteSpace_def)
  with processRepo_blank_locator [OF h] show ?thesis
    by (rule conjI [rotated])
qed

section \<open>Chat on a job that is not ready\<close>

text \<open>
  C1. When the observed status is not \<open>ready\<close> (also when no status has been observed),
  \<open>sendMessage\<close> sends no chat request, has no other effect and returns the state it was
  given, so the transcript is unchanged and no answer appears, whatever the backend would
  have answered; the chat input and the Send button are disabled in that state.
\<close>

theorem sendMessage_not_ready:
  assumes "\<not> statusIs (js ''ready'') st"
  shows "sendMessage res st = (st, []) \<and>
         input_disabled (mainView st) \<and> send_disabled (mainView st)"
  using assms by (simp add: sendMessage_def mainView_def)

theorem sendMessage_not_ready_witness:
  "\<not> statusIs (js ''ready'') (chatting\<lparr>repoStatus := Some processingSnapshot\<rparr>) \<and>
   sendMessage (Response True (Json answer)) (chatting\<lparr>repoStatus := Some processingSnapshot\<rparr>) =
     (chatting\<lparr>repoStatus := Some processingSnapshot\<rparr>, [])"
proof -
  have h: "\<not> statusIs (js ''ready'') (chatting\<lparr>repoStatus := Some processingSnapshot\<rparr>)"
    by (simp add: statusIs_def processingSnapshot_def js_eq_iff)
  from sendMessage_not_ready [OF h] h show ?thesis
    by blast
qed

section \<open>The transcript under sendMessage\<close>

text \<open>
  C10. \<open>sendMessage\<close> only appends to the transcript: when its guard stops it nothing is
  appended, otherwise the user's turn and then exactly one turn, the answer or the
  fallback, are appended. The messages recorded before, with their sources, are the
  prefix of the new transcript.
\<close>

theorem sendMessage_appends:
  "messages (fst (sendMessage res st)) =
     (if trim (currentMessage st) = [] \<or> \<not> truthy (repoId st) \<or> \<not> statusIs (js ''ready'') st
      then messages st
      else messages st @
        [\<lparr>message = currentMessage st, isUser = True, sources = []\<rparr>,
         (case settle (js ''Failed to send message'') res of
            Inr d \<Rightarrow> \<lparr>message = response d, isUser = False, sources = data_sources d\<rparr>
          | Inl e \<Rightarrow> chatFailedMessage)]) \<and>
   take (length (messages st)) (messages (fst (sendMessage res st))) = messages st"
  by (simp add: sendMessage_def appendMessage_def Let_def split: sum.splits)

theorem sendMessage_appends_witness:
  "messages (fst (sendMessage (Response True (Json answer)) chatting)) =
     messages chatting @
       [\<lparr>message = js ''And the tests?'', isUser = True, sources = []\<rparr>,
        \<lparr>message = js ''In tests/.'', isUser = False,
         sources = [\<lparr>file_path = js ''tests/test_app.py'', start_line = 5, end_line = 12\<rparr>]\<rparr>]"
proof -
  have cm: "currentMessage chatting = js ''And the tests?''"
    by (simp add: chatting_def)
  from sendMessage_appends [of "Response True (Json answer)" chatting] chatting_guard
  show ?thesis
    by (simp add: answer_def cm)
qed

section \<open>A failed chat request\<close>

text \<open>
  C4. When a chat request is sent and fails (the fetch rejects or the response is not
  ok), the transcript gains the user's turn and exactly one fallback message with no
  sources. The resulting state is the same for every failure, so nothing rendered from
  it depends on the error; the error's text goes to \<open>console.error\<close> only.
\<close>

theorem sendMessage_failure_fallback:
  assumes "trim (currentMessage st) \<noteq> []" and "truthy (repoId st)"
    and "statusIs (js ''ready'') st" and "failed res"
  shows "messages (fst (sendMessage res st)) =
           messages st @ [\<lparr>message = currentMessage st, isUser = True, sources = []\<rparr>,
                          chatFailedMessage] \<and>
         sources chatFailedMessage = [] \<and>
         (\<forall>res'. failed res' \<longrightarrow> fst (sendMessage res' st) = fst (sendMessage res st)) \<and>
         (\<exists>req e. snd (sendMessage res st) =
            [PostChat req, ConsoleError (js ''Error sending message:'') e])"
proof -
  have st: "failed r \<Longrightarrow> fst (sendMessage r st) =
      (appendMessage chatFailedMessage
        (st\<lparr>currentMessage := [], isSending := True,
            messages := messages st @
              [\<lparr>message = currentMessage st, isUser = True, sources = []\<rparr>]\<rparr>))
        \<lparr>isSending := False\<rparr>" for r :: "chat_data fetch_result"
    using assms(1-3) settle_failed [of r "js ''Failed to send message''"]
    by (auto simp: sendMessage_def Let_def)
  have eff: "\<exists>req e. snd (sendMessage res st) =
            [PostChat req, ConsoleError (js ''Error sending message:'') e]"
    using assms settle_failed [of res "js ''Failed to send message''"]
    by (auto simp: sendMessage_def Let_def)
  have "sources chatFailedMessage = []"
    by (simp add: chatFailedMessage_def)
  with st [OF assms(4)] st eff show ?thesis
    by (simp add: appendMessage_def)
qed

theorem sendMessage_failure_fallback_witness:
  "failed (NetworkError (js ''TypeError: Failed to fetch'') :: chat_data fetch_result) \<and>
   messages (fst (sendMessage (NetworkError (js ''TypeError: Failed to fetch'')) chatting)) =
     messages chatting @ [\<lparr>message = js ''And the tests?'', isUser = True, sources = []\<rparr>,
       chatFailedMessage] \<and>
   fst (sendMessage (Response False (BadJson [])) chatting) =
     fst (sendMessage (NetworkError (js ''TypeError: Failed to fetch'')) chatting)"
proof -
  have f: "failed (NetworkError (js ''TypeError: Failed to fetch'') :: chat_data fetch_result)"
    by simp
  have g: "failed (Response False (BadJson []) :: chat_data fetch_result)"
    by simp
  note t = sendMessage_failure_fallback [OF chatting_guard f]
  have cm: "currentMessage chatting = js ''And the tests?''"
    by (simp add: chatting_def)
  from t have "messages (fst (sendMessage (NetworkError (js ''TypeError: Failed to fetch'')) chatting)) =
     messages chatting @ [\<lparr>message = js ''And the tests?'', isUser = True, sources = []\<rparr>,
       chatFailedMessage]"
    unfolding cm by (rule conjunct1)
  moreover from t g have "fst (sendMessage (Response False (BadJson [])) chatting) =
     fst (sendMessage (NetworkError (js ''TypeError: Failed to fetch'')) chatting)"
    by blast
  ultimately show ?thesis using f by blast
qed

section \<open>Citations of a chat answer\<close>

text \<open>
  C7. After a successful chat response the last entry of the transcript holds the
  response's text and sources, and its rendering has a Sources block exactly when the
  sources are not empty, with one citation per source, in order, showing the source's
  \<open>file_path\<close> and \<open>lines start_line-end_line\<close>.
\<close>

theorem sendMessage_success_citations:
  assumes "trim (currentMessage st) \<noteq> []" and "truthy (repoId st)"
    and "statusIs (js ''ready'') st"
  shows "last (messages (fst (sendMessage (Response True (Json d)) st))) =
           \<lparr>message = response d, isUser = False, sources = data_sources d\<rparr> \<and>
         mv_sources (last (transcript (mainView (fst (sendMessage (Response True (Json d)) st))))) =
           (if data_sources d = [] then None
            else Some (map (\<lambda>s. \<lparr>cite_path = file_path s,
                   cite_lines = js ''lines '' @ decimal (start_line s) @ js ''-'' @
                     decimal (end_line s)\<rparr>) (data_sources d)))"
  using assms
  by (simp add: sendMessage_def appendMessage_def Let_def mainView_def last_map renderMessage_def
        renderSources_def renderSource_def)

theorem sendMessage_success_citations_witness:
  "mv_sources (last (transcript (mainView (fst (sendMessage (Response True (Json answer)) chatting))))) =
     Some [\<lparr>cite_path = js ''tests/test_app.py'', cite_lines = js ''lines 5-12''\<rparr>]"
  using sendMessage_success_citations [OF chatting_guard, of answer]
  by (simp add: answer_def js_def decimal.simps)

section \<open>The conversation history of a chat request\<close>

text \<open>
  C2. What the code sends: the chat request is the first effect of a send that passes
  the guard, and its \<open>conversation_history\<close> holds the last five transcript entries that
  are not the user's, each with role \<open>assistant\<close>. No turn of the user is ever part of it:
  the filter of line 301 removes them before the window is taken, and the role \<open>user\<close> of
  line 302 is never produced. In the instance below the earlier question
  \<open>Where is main?\<close> is missing from the history although only three turns precede the
  request.
\<close>

theorem conversation_history_assistant_only:
  assumes "trim (currentMessage st) \<noteq> []" and "truthy (repoId st)"
    and "statusIs (js ''ready'') st"
  shows "take 1 (snd (sendMessage res st)) =
           [PostChat \<lparr>req_repo_id = repoId st, req_message = currentMessage st,
              conversation_history =
                map (\<lambda>m. \<lparr>role = js ''assistant'', content = message m\<rparr>)
                  (slice_last 5 (filter (\<lambda>m. \<not> isUser m) (messages st)))\<rparr>]"
proof -
  let ?old = "slice_last 5 (filter (\<lambda>m. \<not> isUser m) (messages st))"
  have old: "\<not> isUser m" if "m \<in> set ?old" for m
  proof -
    from that have "m \<in> set (filter (\<lambda>m. \<not> isUser m) (messages st))"
      unfolding slice_last_def by (rule in_set_dropD)
    then show ?thesis by simp
  qed
  have "map (\<lambda>msg. \<lparr>role = (if isUser msg then js ''user'' else js ''assistant''),
                       content = message msg\<rparr>) ?old =
        map (\<lambda>m. \<lparr>role = js ''assistant'', content = message m\<rparr>) ?old"
  proof (rule map_cong [OF refl])
    fix x
    assume "x \<in> set ?old"
    then have "\<not> isUser x" by (rule old)
    then show "\<lparr>role = (if isUser x then js ''user'' else js ''assistant''), content = message x\<rparr> =
      \<lparr>role = js ''assistant'', content = message x\<rparr>"
      by simp
  qed
  then have "conversationHistory
       (messages st @ [\<lparr>message = currentMessage st, isUser = True, sources = []\<rparr>]) =
     map (\<lambda>m. \<lparr>role = js ''assistant'', content = message m\<rparr>) ?old"
    unfolding conversationHistory_def by simp
  with assms show ?thesis
    by (simp add: sendMessage_def Let_def split: sum.splits)
qed

theorem conversation_history_assistant_only_witness:
  "fst (run chatSession initial) = chatting \<and>
   messages chatting =
     [startedMessage (js ''r''),
      \<lparr>message = js ''Where is main?'', isUser = True, sources = []\<rparr>,
      \<lparr>message = js ''In app.py.'', isUser = False,
       sources = [\<lparr>file_path = js ''app.py'', start_line = 1, end_line = 20\<rparr>]\<rparr>] \<and>
   take 1 (snd (sendMessage (Response True (Json answer)) chatting)) =
     [PostChat \<lparr>req_repo_id = Some (js ''r1''), req_message = js ''And the tests?'',
        conversation_history =
          [\<lparr>role = js ''assistant'', content = message (startedMessage (js ''r''))\<rparr>,
           \<lparr>role = js ''assistant'', content = js ''In app.py.''\<rparr>]\<rparr>]"
proof -
  have "[PostChat \<lparr>req_repo_id = repoId chatting, req_message = currentMessage chatting,
              conversation_history =
                map (\<lambda>m. \<lparr>role = js ''assistant'', content = message m\<rparr>)
                  (slice_last 5 (filter (\<lambda>m. \<not> isUser m) (messages chatting)))\<rparr>] =
     [PostChat \<lparr>req_repo_id = Some (js ''r1''), req_message = js ''And the tests?'',
        conversation_history =
          [\<lparr>role = js ''assistant'', content = message (startedMessage (js ''r''))\<rparr>,
           \<lparr>role = js ''assistant'', content = js ''In app.py.''\<rparr>]\<rparr>]"
    by (simp add: chatting_def slice_last_def startedMessage_def)
  with conversation_history_assistant_only [OF chatting_guard, of "Response True (Json answer)"]
  have "take 1 (snd (sendMessage (Response True (Json answer)) chatting)) =
     [PostChat \<lparr>req_repo_id = Some (js ''r1''), req_message = js ''And the tests?'',
        conversation_history =
          [\<lparr>role = js ''assistant'', content = message (startedMessage (js ''r''))\<rparr>,
           \<lparr>role = js ''assistant'', content = js ''In app.py.''\<rparr>]\<rparr>]"
    by (rule trans)
  moreover have "messages chatting =
     [startedMessage (js ''r''),
      \<lparr>message = js ''Where is main?'', isUser = True, sources = []\<rparr>,
      \<lparr>message = js ''In app.py.'', isUser = False,
       sources = [\<lparr>file_path = js ''app.py'', start_line = 1, end_line = 20\<rparr>]\<rparr>]"
    by (simp add: chatting_def)
  ultimately show ?thesis
    using chatting_reached by blast
qed

section \<open>Splitting and rendering a message\<close>
















section \<open>Polling the status\<close>

lemma step_settled:
  assumes "settled c"
  shows "settled (fst (step ev c))"
    and "filter isGetStatus (snd (step ev c)) = []"
    and "repoStatus (ui (fst (step ev c))) = repoStatus (ui c)"
  using assms
  by (cases ev;
      auto simp: settled_def polling_def statusIs_def split_beta filesAnswered_def
        sendMessageStart_def chatAnswered_def appendMessage_def Let_def
        split: fetch_result.splits body.splits sum.splits)+

lemma exec_settled:
  assumes "settled c"
  shows "filter isGetStatus (snd (exec evs c)) = [] \<and>
         repoStatus (ui (fst (exec evs c))) = repoStatus (ui c)"
  using assms
proof (induction evs arbitrary: c)
  case Nil
  show ?case by simp
next
  case (Cons ev evs)
  from Cons.IH [OF step_settled(1) [OF Cons.prems, of ev]]
    step_settled(2,3) [OF Cons.prems, of ev]
  show ?case
    by (simp only: exec_Cons fst_conv snd_conv filter_append) simp
qed

lemma answeredTick_steady:
  assumes "steady i c" and "stillProcessing sres"
  shows "steady i (fst (exec (answeredTick (Some i) (sres, fres)) c))"
    and "filter isGetStatus (snd (exec (answeredTick (Some i) (sres, fres)) c)) =
           [GetStatus (Some i)]"
  using assms
  by (cases sres rule: stillProcessing.cases;
      simp add: answeredTick_def steady_def polling_def truthy_def statusIs_def
        statusAnswered_def js_eq_iff split_beta)+

lemma answeredTicks_steady:
  assumes "list_all (\<lambda>t. stillProcessing (fst t)) pre" and "steady i c"
  shows "steady i (fst (exec (concat (map (answeredTick (Some i)) pre)) c)) \<and>
         filter isGetStatus (snd (exec (concat (map (answeredTick (Some i)) pre)) c)) =
           replicate (length pre) (GetStatus (Some i))"
  using assms
proof (induction pre arbitrary: c)
  case Nil
  then show ?case by simp
next
  case (Cons t pre)
  obtain sres fres where t: "t = (sres, fres)" by (cases t)
  from Cons.prems t have still: "stillProcessing sres"
    and pre: "list_all (\<lambda>t. stillProcessing (fst t)) pre"
    by simp_all
  note tick = answeredTick_steady [OF Cons.prems(2) still, of fres]
  from Cons.IH [OF pre tick(1)] tick(2) t show ?case
    by (simp add: exec_append)
qed

lemma answeredTick_settles:
  assumes "steady i c" and "status s \<noteq> js ''processing''"
  shows "settled (fst (exec (answeredTick (Some i) (Response True (Json s), fres)) c))"
    and "repoStatus (ui (fst (exec (answeredTick (Some i) (Response True (Json s), fres)) c))) =
           Some s"
    and "filter isGetStatus (snd (exec (answeredTick (Some i) (Response True (Json s), fres)) c)) =
           [GetStatus (Some i)]"
  using assms
  by (auto simp: answeredTick_def steady_def settled_def polling_def truthy_def statusIs_def
        statusAnswered_def filesAnswered_def split_beta
        split: fetch_result.splits body.splits)

text \<open>
  Reads that overlap are in the model as they are in the page: three ticks send three
  reads before any answer; after the first \<open>ready\<close> no tick sends a read; the late answer
  \<open>processing\<close> sets the interval again and the next tick sends a fourth read.
\<close>

lemma overlapping_reads:
  "filter isGetStatus (snd (run overlapping initial)) =
     [GetStatus (Some (js ''r1'')), GetStatus (Some (js ''r1'')), GetStatus (Some (js ''r1'')),
      GetStatus (Some (js ''r1''))] \<and>
   polling (fst (run overlapping initial))"
  by (simp add: run_def overlapping_def exec_append exec_submission [OF trim_sampleUrl]
        sampleData_def polling_def truthy_def statusIs_def statusAnswered_def filesAnswered_def
        readySnapshot_def processingSnapshot_def js_eq_iff js_empty)

text \<open>
  C5, as the code has it. After a successful submission (a locator that is not blank,
  an ok answer with a job id, nothing else in flight) the client reads the status only
  while the status it holds is \<open>processing\<close>. When the submission reports any other
  status, \<open>queued\<close> included, no status read is ever sent, whatever happens afterwards.
  When it reports \<open>processing\<close> and every read is answered before the next tick, the
  client sends one status read per tick as long as the reads fail or report
  \<open>processing\<close>, takes over the first other status it reads (\<open>ready\<close>, \<open>failed\<close> or anything
  else) and sends no status read after that, whatever happens afterwards. Nothing is
  said of reads that are still unanswered at the next tick.
\<close>

theorem polling_only_while_processing:
  assumes "trim u \<noteq> []" and "repo_id d \<noteq> []"
  shows "(status (snapshot d) \<noteq> js ''processing'' \<longrightarrow>
            filter isGetStatus (snd (run (submission u d @ evs) initial)) = []) \<and>
         (status (snapshot d) = js ''processing'' \<and>
          list_all (\<lambda>t. stillProcessing (fst t)) pre \<and> status s \<noteq> js ''processing'' \<longrightarrow>
            filter isGetStatus
              (snd (run (submission u d @
                         concat (map (answeredTick (Some (repo_id d))) pre) @
                         answeredTick (Some (repo_id d)) (Response True (Json s), fres) @
                         post) initial)) =
              replicate (Suc (length pre)) (GetStatus (Some (repo_id d))) \<and>
            repoStatus
              (fst (run (submission u d @
                         concat (map (answeredTick (Some (repo_id d))) pre) @
                         answeredTick (Some (repo_id d)) (Response True (Json s), fres) @
                         post) initial)) = Some s)"
proof (intro conjI impI)
  let ?c = "fst (exec (submission u d) (start initial))"
  note sub = exec_submission [OF assms(1), of d]
  have post: "filter isGetStatus (snd (exec (submission u d) (start initial))) = []"
    by (simp add: sub)
  {
    assume "status (snapshot d) \<noteq> js ''processing''"
    with assms(2) have "settled ?c"
      by (simp add: sub settled_def truthy_def statusIs_def)
    from exec_settled [OF this, of evs] post
    show "filter isGetStatus (snd (run (submission u d @ evs) initial)) = []"
      by (simp add: run_def exec_append)
  }
  assume a: "status (snapshot d) = js ''processing'' \<and>
      list_all (\<lambda>t. stillProcessing (fst t)) pre \<and> status s \<noteq> js ''processing''"
  let ?i = "repo_id d"
  let ?pre = "concat (map (answeredTick (Some ?i)) pre)"
  let ?last = "answeredTick (Some ?i) (Response True (Json s), fres)"
  from a assms(2) have c: "steady ?i ?c"
    by (simp add: sub steady_def statusIs_def)
  from a have pre: "list_all (\<lambda>t. stillProcessing (fst t)) pre"
    and s: "status s \<noteq> js ''processing''"
    by simp_all
  let ?c1 = "fst (exec ?pre ?c)"
  from answeredTicks_steady [OF pre c]
  have c1: "steady ?i ?c1"
    and e1: "filter isGetStatus (snd (exec ?pre ?c)) = replicate (length pre) (GetStatus (Some ?i))"
    by simp_all
  let ?c2 = "fst (exec ?last ?c1)"
  note last = answeredTick_settles [OF c1 s, of fres]
  note rest = exec_settled [OF last(1), of post]
  show "filter isGetStatus (snd (run (submission u d @ ?pre @ ?last @ post) initial)) =
      replicate (Suc (length pre)) (GetStatus (Some ?i))"
    using post e1 last(3) rest
    by (simp add: run_def exec_append replicate_append_same)
  show "repoStatus (fst (run (submission u d @ ?pre @ ?last @ post) initial)) = Some s"
    using last(2) rest
    by (simp add: run_def exec_append)
qed

theorem polling_only_while_processing_witness:
  "trim sampleUrl \<noteq> [] \<and> repo_id (sampleData (js ''processing'')) \<noteq> [] \<and>
   filter isGetStatus
     (snd (run (submission sampleUrl (sampleData (js ''processing'')) @
                concat (map (answeredTick (Some (js ''r1'')))
                  [(Response True (Json processingSnapshot), NetworkError []),
                   (NetworkError (js ''offline''), NetworkError [])]) @
                answeredTick (Some (js ''r1''))
                  (Response True (Json readySnapshot), Response True (Json sampleFiles)) @
                [Tick, TypeMessage (js ''Where is main?''), PressSend, Tick]) initial)) =
     [GetStatus (Some (js ''r1'')), GetStatus (Some (js ''r1'')), GetStatus (Some (js ''r1''))] \<and>
   filter isGetStatus
     (snd (run (submission sampleUrl (sampleData (js ''ready'')) @ [Tick, Tick]) initial)) = []"
proof -
  have i: "repo_id (sampleData (js ''processing'')) = js ''r1''"
    and j: "repo_id (sampleData (js ''ready'')) \<noteq> []"
    by (simp_all add: sampleData_def js_empty)
  have n: "repo_id (sampleData (js ''processing'')) \<noteq> []"
    by (simp add: sampleData_def js_empty)
  have h: "status (snapshot (sampleData (js ''processing''))) = js ''processing'' \<and>
      list_all (\<lambda>t. stillProcessing (fst t))
        [(Response True (Json processingSnapshot), NetworkError [] :: files_data fetch_result),
         (NetworkError (js ''offline''), NetworkError [])] \<and>
      status readySnapshot \<noteq> js ''processing''"
    by (simp add: sampleData_def processingSnapshot_def readySnapshot_def js_eq_iff)
  have r: "status (snapshot (sampleData (js ''ready''))) \<noteq> js ''processing''"
    by (simp add: sampleData_def js_eq_iff)
  from polling_only_while_processing [OF trim_sampleUrl n,
      where pre = "[(Response True (Json processingSnapshot), NetworkError []),
                   (NetworkError (js ''offline''), NetworkError [])]"
        and s = readySnapshot and fres = "Response True (Json sampleFiles)"
        and post = "[Tick, TypeMessage (js ''Where is main?''), PressSend, Tick]"] h
  have "filter isGetStatus
     (snd (run (submission sampleUrl (sampleData (js ''processing'')) @
                concat (map (answeredTick (Some (js ''r1'')))
                  [(Response True (Json processingSnapshot), NetworkError []),
                   (NetworkError (js ''offline''), NetworkError [])]) @
                answeredTick (Some (js ''r1''))
                  (Response True (Json readySnapshot), Response True (Json sampleFiles)) @
                [Tick, TypeMessage (js ''Where is main?''), PressSend, Tick]) initial)) =
     replicate (Suc (length
        [(Response True (Json processingSnapshot), NetworkError [] :: files_data fetch_result),
         (NetworkError (js ''offline''), NetworkError [])])) (GetStatus (Some (js ''r1'')))"
    unfolding i by blast
  also have "\<dots> =
      [GetStatus (Some (js ''r1'')), GetStatus (Some (js ''r1'')), GetStatus (Some (js ''r1''))]"
    by (simp add: numeral_3_eq_3)
  finally have three: "filter isGetStatus
     (snd (run (submission sampleUrl (sampleData (js ''processing'')) @
                concat (map (answeredTick (Some (js ''r1'')))
                  [(Response True (Json processingSnapshot), NetworkError []),
                   (NetworkError (js ''offline''), NetworkError [])]) @
                answeredTick (Some (js ''r1''))
                  (Response True (Json readySnapshot), Response True (Json sampleFiles)) @
                [Tick, TypeMessage (js ''Where is main?''), PressSend, Tick]) initial)) =
     [GetStatus (Some (js ''r1'')), GetStatus (Some (js ''r1'')), GetStatus (Some (js ''r1''))]" .
  from polling_only_while_processing [OF trim_sampleUrl j, where evs = "[Tick, Tick]"] r
  have "filter isGetStatus
     (snd (run (submission sampleUrl (sampleData (js ''ready'')) @ [Tick, Tick]) initial)) = []"
    by blast
  with three trim_sampleUrl n show ?thesis
    by blast
qed

text \<open>
  The claim as stated fails for a submission that reports \<open>queued\<close>: the client holds
  that status, no interval is set, three ticks go by and no status read is sent.
\<close>

theorem polling_queued_counterexample:
  "trim sampleUrl \<noteq> [] \<and>
   repoId (fst (run (submission sampleUrl (sampleData (js ''queued'')) @ [Tick, Tick, Tick])
      initial)) = Some (js ''r1'') \<and>
   repoStatus (fst (run (submission sampleUrl (sampleData (js ''queued'')) @ [Tick, Tick, Tick])
      initial)) =
     Some \<lparr>status = js ''queued'', file_count = 0, processed_chunks = 0, error = None\<rparr> \<and>
   \<not> polling (fst (run (submission sampleUrl (sampleData (js ''queued'')) @ [Tick, Tick, Tick])
      initial)) \<and>
   snd (run (submission sampleUrl (sampleData (js ''queued'')) @ [Tick, Tick, Tick]) initial) =
     [PostProcess sampleUrl]"
proof -
  have "run (submission sampleUrl (sampleData (js ''queued'')) @ [Tick, Tick, Tick]) initial =
     (\<lparr>repoUrl = sampleUrl, repoId = Some (js ''r1''),
       repoStatus = Some \<lparr>status = js ''queued'', file_count = 0, processed_chunks = 0,
                           error = None\<rparr>,
       files = None, messages = [startedMessage (js ''r'')], currentMessage = [],
       isLoading = False, isSending = False\<rparr>,
      [PostProcess sampleUrl])"
    by (simp add: run_def exec_append exec_submission [OF trim_sampleUrl] sampleData_def
          polling_def statusIs_def js_eq_iff)
  with trim_sampleUrl show ?thesis
    by (simp add: polling_def statusIs_def js_eq_iff)
qed

section \<open>The file tree\<close>

lemma run_twoSubmissions:
  "run twoSubmissions initial =
     (\<lparr>repoUrl = sampleUrl, repoId = Some (js ''r2''),
       repoStatus = Some \<lparr>status = js ''processing'', file_count = 0, processed_chunks = 0,
                           error = None\<rparr>,
       files = Some sampleFiles, messages = [startedMessage (js ''r'')], currentMessage = [],
       isLoading = False, isSending = False\<rparr>,
      [PostProcess sampleUrl, PostProcess sampleUrl, GetStatus (Some (js ''r1'')),
       GetFiles (Some (js ''r1''))])"
  using trim_sampleUrl
  by (simp add: run_def twoSubmissions_def start_def initial_def truthy_def processRepoStart_def
        submitAnswered_def sampleData_def secondData_def polling_def statusIs_def
        statusAnswered_def filesAnswered_def readySnapshot_def js_eq_iff js_empty)

text \<open>
  C6. What the code does with a second submission. Enter in the URL input starts a
  submission whenever no job id is held and the locator is not blank, also while another
  submission is in flight (\<open>isLoading\<close> is not looked at, as the Analyze button does). The
  answer of a submission replaces the job id and the snapshot and leaves the stored file
  listing as it is. In the instance below Enter is pressed twice; the first job is
  answered, becomes ready and has its files listed; then the second answer arrives: the
  page holds the job \<open>r2\<close> with the status \<open>processing\<close>, no status read has reported it
  ready, and the file explorer shows the listing of \<open>r1\<close>.
\<close>

theorem second_submission_keeps_listing:
  "(\<not> truthy (repoId (ui c)) \<and> trim (repoUrl (ui c)) \<noteq> [] \<longrightarrow>
      snd (step PressEnter c) = [PostProcess (repoUrl (ui c))] \<and>
      submitting (fst (step PressEnter c)) = Suc (submitting c)) \<and>
   (0 < submitting c \<longrightarrow>
      repoId (ui (fst (step (SubmitAnswer (Response True (Json d))) c))) = Some (repo_id d) \<and>
      repoStatus (ui (fst (step (SubmitAnswer (Response True (Json d))) c))) = Some (snapshot d)) \<and>
   files (ui (fst (step (SubmitAnswer res) c))) = files (ui c)"
  by (simp add: processRepoStart_def submitAnswered_def split_beta split: sum.splits)

theorem second_submission_keeps_listing_witness:
  "repoId (fst (run twoSubmissions initial)) = Some (js ''r2'') \<and>
   statusIs (js ''processing'') (fst (run twoSubmissions initial)) \<and>
   \<not> statusIs (js ''ready'') (fst (run twoSubmissions initial)) \<and>
   explorer_pane (mainView (fst (run twoSubmissions initial))) =
     Listing [(js ''app.py'', FileNode (js ''app.py''))] \<and>
   snd (run twoSubmissions initial) =
     [PostProcess sampleUrl, PostProcess sampleUrl, GetStatus (Some (js ''r1'')),
      GetFiles (Some (js ''r1''))]"
  using second_submission_keeps_listing [of "start initial" secondData "NetworkError []"]
  by (simp add: run_twoSubmissions statusIs_def js_eq_iff mainView_def fileTree_def
        sampleFiles_def)

section \<open>The status badge\<close>

text \<open>
  C3, as the code has it. The status badge shows the status, \<open>file_count\<close> and
  \<open>processed_chunks\<close> of the snapshot the client holds. Nothing the client renders
  depends on the snapshot's \<open>error\<close> field.
\<close>

theorem status_badge_without_cause:
  "badge_view (render (st\<lparr>repoStatus := Some r\<rparr>)) = Some (statusBadge r) \<and>
   badge_text (statusBadge r) =
     status r @ js '' - '' @ decimal (file_count r) @ js '' files, '' @
     decimal (processed_chunks r) @ js '' chunks'' \<and>
   sublist (status r) (badge_text (statusBadge r)) \<and>
   sublist (decimal (file_count r)) (badge_text (statusBadge r)) \<and>
   sublist (decimal (processed_chunks r)) (badge_text (statusBadge r)) \<and>
   render (st\<lparr>repoStatus := Some (r\<lparr>error := e\<rparr>)\<rparr>) = render (st\<lparr>repoStatus := Some r\<rparr>)"
proof -
  let ?t = "badge_text (statusBadge r)"
  have t: "?t = status r @ js '' - '' @ decimal (file_count r) @ js '' files, '' @
     decimal (processed_chunks r) @ js '' chunks''"
    by (simp add: statusBadge_def)
  have "?t = [] @ status r @ (js '' - '' @ decimal (file_count r) @ js '' files, '' @
     decimal (processed_chunks r) @ js '' chunks'')"
    by (simp add: t)
  then have s1: "sublist (status r) ?t"
    by (simp only: sublist_appendI)
  have "?t = (status r @ js '' - '') @ decimal (file_count r) @ (js '' files, '' @
     decimal (processed_chunks r) @ js '' chunks'')"
    by (simp add: t)
  then have s2: "sublist (decimal (file_count r)) ?t"
    by (simp only: sublist_appendI)
  have "?t = (status r @ js '' - '' @ decimal (file_count r) @ js '' files, '') @
     decimal (processed_chunks r) @ js '' chunks''"
    by (simp add: t)
  then have s3: "sublist (decimal (processed_chunks r)) ?t"
    by (simp only: sublist_appendI)
  have "badge_view (render (st\<lparr>repoStatus := Some r\<rparr>)) = Some (statusBadge r)"
    by (simp add: render_def)
  with t s1 s2 s3 render_error show ?thesis
    by blast
qed

theorem status_badge_without_cause_witness:
  "badge_text (statusBadge (failedSnapshot (js ''clone failed''))) = js ''failed - 3 files, 2 chunks'' \<and>
   render ((fst (run (failing []) initial))
      \<lparr>repoStatus := Some (failedSnapshot (js ''clone failed''))\<rparr>) =
   render ((fst (run (failing []) initial))\<lparr>repoStatus := Some (failedSnapshot [])\<rparr>)"
proof -
  have e: "failedSnapshot [] \<lparr>error := Some (js ''clone failed'')\<rparr> = failedSnapshot (js ''clone failed'')"
    by (simp add: failedSnapshot_def)
  have "status (failedSnapshot (js ''clone failed'')) @ js '' - '' @
      decimal (file_count (failedSnapshot (js ''clone failed''))) @ js '' files, '' @
      decimal (processed_chunks (failedSnapshot (js ''clone failed''))) @ js '' chunks'' =
    js ''failed - 3 files, 2 chunks''"
    by (simp add: failedSnapshot_def js_def decimal.simps)
  with status_badge_without_cause [where st = "fst (run (failing []) initial)"
      and r = "failedSnapshot []" and e = "Some (js ''clone failed'')"]
    status_badge_without_cause [where st = "fst (run (failing []) initial)"
      and r = "failedSnapshot (js ''clone failed'')" and e = "Some (js ''clone failed'')"]
  show ?thesis
    unfolding e by simp
qed

text \<open>
  The claim as stated fails on the failure cause: two sessions in which the job fails
  with different causes end in different states that are rendered the same. The badge
  reads \<open>failed - 3 files, 2 chunks\<close>, the transcript holds the opening message only, and
  nothing was logged.
\<close>

theorem failure_cause_not_shown_counterexample:
  "repoStatus (fst (run (failing (js ''clone failed'')) initial)) =
     Some \<lparr>status = js ''failed'', file_count = 3, processed_chunks = 2,
           error = Some (js ''clone failed'')\<rparr> \<and>
   repoStatus (fst (run (failing (js ''out of memory'')) initial)) =
     Some \<lparr>status = js ''failed'', file_count = 3, processed_chunks = 2,
           error = Some (js ''out of memory'')\<rparr> \<and>
   render (fst (run (failing (js ''clone failed'')) initial)) =
     render (fst (run (failing (js ''out of memory'')) initial)) \<and>
   map_option badge_text (badge_view (render (fst (run (failing (js ''clone failed'')) initial)))) =
     Some (js ''failed - 3 files, 2 chunks'') \<and>
   transcript (mainView (fst (run (failing (js ''clone failed'')) initial))) =
     [renderMessage (startedMessage (js ''r''))] \<and>
   snd (run (failing (js ''clone failed'')) initial) =
     [PostProcess sampleUrl, GetStatus (Some (js ''r1''))]"
proof -
  have "render (fst (run (failing e) initial)) =
      render (fst (run (failing e') initial))" for e e'
    by (simp add: run_failing render_def mainView_def urlSection_def statusBadge_def
          statusIs_def failedSnapshot_def)
  moreover have "map_option badge_text (badge_view (render (fst (run (failing (js ''clone failed'')) initial)))) =
     Some (js ''failed - 3 files, 2 chunks'')"
    by (simp add: run_failing render_def statusBadge_def failedSnapshot_def decimal.simps js_def)
  ultimately show ?thesis
    by (simp add: run_failing failedSnapshot_def mainView_def)
qed

end
